theory Spec2Isabelle
  imports Main "HOL-Library.AList"
begin

section \<open>JavaScript values\<close>

text \<open>
  The payloads handled by the data loader are JSON documents and the object literal of
  \<^verbatim>\<open>getFallbackData\<close>. Objects keep their own properties in insertion order. The
  only numbers written in the source are integers, so numbers are integers here.
  \<open>JNative\<close> stands for a built-in object or function of the language, named by its
  well-known name; such values are reachable from any plain object through its prototype.
\<close>

datatype jsval =
    JNull
  | JBool bool
  | JNum int
  | JStr string
  | JArr "jsval list"
  | JObj "(string \<times> jsval) list"
  | JNative string

text \<open>Truthiness, as the operator \<^verbatim>\<open>||\<close> tests it.\<close>

fun truthy :: "jsval \<Rightarrow> bool" where
  "truthy JNull = False"
| "truthy (JBool b) = b"
| "truthy (JNum n) = (n \<noteq> 0)"
| "truthy (JStr s) = (s \<noteq> [])"
| "truthy (JArr xs) = True"
| "truthy (JObj ps) = True"
| "truthy (JNative n) = True"

text \<open>
  The properties every object literal inherits from \<^verbatim>\<open>Object.prototype\<close>. Reading
  \<^verbatim>\<open>__proto__\<close> yields the prototype object itself.
\<close>

definition object_prototype :: "(string \<times> jsval) list" where
  "object_prototype =
    [(''constructor'', JNative ''Object''),
     (''__defineGetter__'', JNative ''Object.prototype.__defineGetter__''),
     (''__defineSetter__'', JNative ''Object.prototype.__defineSetter__''),
     (''hasOwnProperty'', JNative ''Object.prototype.hasOwnProperty''),
     (''__lookupGetter__'', JNative ''Object.prototype.__lookupGetter__''),
     (''__lookupSetter__'', JNative ''Object.prototype.__lookupSetter__''),
     (''isPrototypeOf'', JNative ''Object.prototype.isPrototypeOf''),
     (''propertyIsEnumerable'', JNative ''Object.prototype.propertyIsEnumerable''),
     (''toString'', JNative ''Object.prototype.toString''),
     (''valueOf'', JNative ''Object.prototype.valueOf''),
     (''__proto__'', JNative ''Object.prototype''),
     (''toLocaleString'', JNative ''Object.prototype.toLocaleString'')]"

text \<open>
  \<^verbatim>\<open>obj[key]\<close> on a plain object whose own properties are \<open>ps\<close>: an own property
  wins, then the prototype is searched; \<open>None\<close> is \<^verbatim>\<open>undefined\<close>.
\<close>

definition get_property :: "(string \<times> jsval) list \<Rightarrow> string \<Rightarrow> jsval option" where
  "get_property ps key =
     (case map_of ps key of
        Some v \<Rightarrow> Some v
      | None \<Rightarrow> map_of object_prototype key)"

text \<open>\<^verbatim>\<open>x || d\<close> where \<open>x\<close> may be \<^verbatim>\<open>undefined\<close>.\<close>

definition or_default :: "jsval option \<Rightarrow> jsval \<Rightarrow> jsval" where
  "or_default x d =
     (case x of
        None \<Rightarrow> d
      | Some v \<Rightarrow> if truthy v then v else d)"

section \<open>The environment: clock, network and console\<close>

text \<open>
  What \<^verbatim>\<open>fetch\<close> followed by \<^verbatim>\<open>response.json()\<close> can produce: the request fails,
  or a response arrives with a status and a body that parses (\<open>Some\<close>) or does not.
\<close>

datatype fetch_outcome =
    NetworkError
  | Response nat "jsval option"

text \<open>\<^verbatim>\<open>response.ok\<close>: the status is in the range 200 to 299.\<close>

definition response_ok :: "nat \<Rightarrow> bool" where
  "response_ok status = (200 \<le> status \<and> status \<le> 299)"

text \<open>The exceptions raised inside the \<^verbatim>\<open>try\<close> block of \<^verbatim>\<open>loadData\<close>.\<close>

datatype js_error =
    FetchRejected
  | HttpError nat
  | JsonSyntaxError

datatype level = Info | Warn | Error | Success

text \<open>
  \<open>clock\<close> is what \<^verbatim>\<open>Date.now()\<close> returns (milliseconds). \<open>network\<close> gives, for a
  URL, the time the request takes and its outcome. \<open>console\<close> collects the lines written
  by \<^verbatim>\<open>Utils.logger\<close>; \<open>requests\<close> collects the URLs passed to \<^verbatim>\<open>fetch\<close>.
\<close>

record world =
  clock :: int
  network :: "string \<Rightarrow> nat \<times> fetch_outcome"
  console :: "(level \<times> string) list"
  requests :: "string list"

definition logger :: "level \<Rightarrow> string \<Rightarrow> world \<Rightarrow> world" where
  "logger lv message W = W\<lparr>console := console W @ [(lv, message)]\<rparr>"

definition fetch_start :: "string \<Rightarrow> world \<Rightarrow> world" where
  "fetch_start url W = W\<lparr>requests := requests W @ [url]\<rparr>"

section \<open>The data loader\<close>

record cache_entry =
  data :: jsval
  timestamp :: int

text \<open>
  The cache is a \<^verbatim>\<open>Map\<close>: an association list in insertion order, read with
  \<open>map_of\<close> and written with \<open>AList.update\<close>, which replaces an existing key in place
  and appends a new one, as \<^verbatim>\<open>Map.prototype.set\<close> does.
\<close>

record dataLoader =
  cache :: "(string \<times> cache_entry) list"
  cacheExpiry :: int
  fallbackData :: "(string \<times> jsval) list"

definition skill :: "string \<Rightarrow> string \<Rightarrow> string \<Rightarrow> int \<Rightarrow> jsval" where
  "skill t d i l =
     JObj [(''title'', JStr t), (''description'', JStr d), (''icon'', JStr i), (''level'', JNum l)]"

definition project :: "string \<Rightarrow> string \<Rightarrow> string \<Rightarrow> string list \<Rightarrow> string \<Rightarrow> jsval \<Rightarrow> jsval" where
  "project t d i tech demo github =
     JObj [(''title'', JStr t), (''description'', JStr d), (''icon'', JStr i),
           (''tech'', JArr (map JStr tech)), (''demo'', JStr demo), (''github'', github),
           (''featured'', JBool True)]"

definition titled :: "string \<Rightarrow> string \<Rightarrow> string \<Rightarrow> string \<Rightarrow> jsval" where
  "titled k t d i = JObj [(k, JStr t), (''description'', JStr d), (''icon'', JStr i)]"

definition book :: "string \<Rightarrow> string \<Rightarrow> string \<Rightarrow> string \<Rightarrow> string \<Rightarrow> jsval" where
  "book t a d i c =
     JObj [(''title'', JStr t), (''author'', JStr a), (''description'', JStr d),
           (''icon'', JStr i), (''category'', JStr c)]"

definition quote :: "string \<Rightarrow> string \<Rightarrow> jsval" where
  "quote t a = JObj [(''text'', JStr t), (''author'', JStr a)]"

definition fallback_user :: jsval where
  "fallback_user =
     JObj [(''name'', JStr ''Koustubh Dave''),
           (''email'', JStr ''kanuntd13@gmail.com''),
           (''github'', JStr ''https://github.com/Koustubh1234G''),
           (''linkedin'', JStr ''https://www.linkedin.com/in/koustubh-dave-0690131a1''),
           (''summary'', JStr ''Full Stack Developer & Cybersecurity Enthusiast with strong interest in strategic thinking, Indian history, and philosophy.''),
           (''stats'', JObj [(''experience'', JStr ''3+''), (''projects'', JStr ''25+''),
                            (''technologies'', JStr ''15+''), (''certifications'', JStr ''5+'')])]"

definition fallback_webdev :: jsval where
  "fallback_webdev =
     JObj [(''skills'', JArr
             [skill ''Frontend Development''
                ''Modern web interfaces with React, Vue, and vanilla JavaScript'' ''fas fa-code'' 90,
              skill ''Backend Development''
                ''Server-side applications with Node.js, Python, and databases'' ''fas fa-server'' 85,
              skill ''Full Stack Architecture''
                ''End-to-end application design and implementation'' ''fas fa-layer-group'' 80]),
           (''projects'', JArr
             [project ''Portfolio Website''
                ''Dual-mode personal portfolio with dynamic theme switching'' ''fas fa-user''
                [''HTML'', ''CSS'', ''JavaScript''] ''#''
                (JStr ''https://github.com/Koustubh1234G'')])]"

definition fallback_cyber :: jsval where
  "fallback_cyber =
     JObj [(''skills'', JArr
             [skill ''Penetration Testing''
                ''Ethical hacking and vulnerability assessment'' ''fas fa-shield-alt'' 75,
              skill ''Network Security''
                ''Securing network infrastructure and protocols'' ''fas fa-network-wired'' 80,
              skill ''Digital Forensics''
                ''Investigation and analysis of digital evidence'' ''fas fa-search'' 70]),
           (''projects'', JArr
             [project ''Security Assessment Tool''
                ''Automated vulnerability scanning and reporting'' ''fas fa-bug''
                [''Python'', ''Nmap'', ''SQLMap''] ''#classified'' JNull])]"

definition fallback_books :: jsval where
  "fallback_books =
     JArr [book ''The Art of War'' ''Sun Tzu''
             ''Ancient Chinese military treatise on strategy and tactics'' ''fas fa-chess'' ''Strategy'',
           book ''Meditations'' ''Marcus Aurelius''
             ''Stoic philosophy and personal reflections of a Roman Emperor'' ''fas fa-scroll''
             ''Philosophy'']"

definition fallback_interests :: jsval where
  "fallback_interests =
     JObj [(''heroes'', JArr
             [titled ''name'' ''Subhas Chandra Bose''
                ''Indian freedom fighter and strategic military leader'' ''fas fa-flag'',
              titled ''name'' ''Adi Shankaracharya''
                ''Philosopher who consolidated Advaita Vedanta'' ''fas fa-om'']),
           (''interests'', JArr
             [titled ''title'' ''Strategic Thinking''
                ''Military strategy, geopolitics, and tactical analysis'' ''fas fa-chess-king'',
              titled ''title'' ''Indian Philosophy''
                ''Vedanta, dharmic traditions, and spiritual texts'' ''fas fa-lotus'']),
           (''hobbies'', JArr
             [titled ''title'' ''Chess''
                ''Strategic board game mastery and tactical thinking'' ''fas fa-chess-knight'',
              titled ''title'' ''Go (Weiqi)''
                ''Ancient strategy game of territory and influence'' ''fas fa-circle''])]"

definition fallback_quotes :: jsval where
  "fallback_quotes =
     JArr [quote ''All warfare is based on deception.'' ''Sun Tzu'',
           quote ''You have power over your mind - not outside events. Realize this, and you will find strength.''
             ''Marcus Aurelius'',
           quote ''Freedom is my birthright and I shall have it.'' ''Bal Gangadhar Tilak'']"

text \<open>
  \<^verbatim>\<open>getFallbackData()\<close> returns one object literal and reads neither \<^verbatim>\<open>this\<close> nor
  any other state, so it is a constant: the own properties of that object.
\<close>

definition getFallbackData :: "(string \<times> jsval) list" where
  "getFallbackData =
     [(''user'', fallback_user),
      (''webdev'', fallback_webdev),
      (''cyber'', fallback_cyber),
      (''books'', fallback_books),
      (''interests'', fallback_interests),
      (''quotes'', fallback_quotes)]"

text \<open>
  The call \<^verbatim>\<open>this.getFallbackData()\<close> on the loader \<open>L\<close> in the environment
  \<open>W\<close>, in the shape of the other methods: the object returned, then the loader and
  the environment as the call leaves them. The body is a single \<^verbatim>\<open>return\<close> of the
  literal; it reads no field, writes none, logs nothing and sends nothing.
\<close>

definition getFallbackData_call :: "dataLoader \<Rightarrow> world \<Rightarrow> jsval \<times> dataLoader \<times> world" where
  "getFallbackData_call L W = (JObj getFallbackData, L, W)"

text \<open>The constructor.\<close>

definition DataLoader_new :: dataLoader where
  "DataLoader_new =
     \<lparr>cache = [], cacheExpiry = 5 * 60 * 1000, fallbackData = getFallbackData\<rparr>"

definition cacheKey :: "string \<Rightarrow> string" where
  "cacheKey type = ''data_'' @ type"

definition dataUrl :: "string \<Rightarrow> string" where
  "dataUrl type = ''data/'' @ type @ ''.json''"

text \<open>
  The cache check at the head of \<^verbatim>\<open>loadData\<close>: the entry's payload when the key is
  present and \<^verbatim>\<open>Date.now() - cached.timestamp < this.cacheExpiry\<close>.
\<close>

definition cache_check :: "dataLoader \<Rightarrow> int \<Rightarrow> string \<Rightarrow> jsval option" where
  "cache_check L now type =
     (case map_of (cache L) (cacheKey type) of
        None \<Rightarrow> None
      | Some cached \<Rightarrow>
          if now - timestamp cached < cacheExpiry L then Some (data cached) else None)"

text \<open>
  \<^verbatim>\<open>loadData\<close> is asynchronous. Its first part runs at once, up to the call of
  \<^verbatim>\<open>fetch\<close>: it either returns the cached payload or leaves a request in flight.
\<close>

definition loadData_begin :: "dataLoader \<Rightarrow> world \<Rightarrow> string \<Rightarrow> jsval option \<times> world" where
  "loadData_begin L W type =
     (case cache_check L (clock W) type of
        Some d \<Rightarrow> (Some d, logger Info (''Using cached data for '' @ type) W)
      | None \<Rightarrow>
          (None, fetch_start (dataUrl type)
                   (logger Info (''Loading '' @ type @ '' data from file'') W)))"

text \<open>
  Its second part runs when the request has completed with outcome \<open>out\<close>; the clock of
  \<open>W\<close> is the time of completion. This is the body of the \<^verbatim>\<open>try\<close> block after the
  \<^verbatim>\<open>await\<close>: \<open>Inl\<close> is an exception thrown in it.
\<close>

definition loadData_try ::
    "dataLoader \<Rightarrow> world \<Rightarrow> string \<Rightarrow> fetch_outcome \<Rightarrow> (js_error + jsval) \<times> dataLoader \<times> world" where
  "loadData_try L W type out =
     (case out of
        NetworkError \<Rightarrow> (Inl FetchRejected, L, W)
      | Response status body \<Rightarrow>
          if \<not> response_ok status then (Inl (HttpError status), L, W)
          else (case body of
                  None \<Rightarrow> (Inl JsonSyntaxError, L, W)
                | Some d \<Rightarrow>
                    (Inr d,
                     L\<lparr>cache := AList.update (cacheKey type)
                                  \<lparr>data = d, timestamp = clock W\<rparr> (cache L)\<rparr>,
                     logger Success (''Successfully loaded '' @ type @ '' data'') W)))"

text \<open>
  The value of the \<^verbatim>\<open>catch\<close> handler, \<^verbatim>\<open>this.fallbackData[type] || {}\<close>.
\<close>

definition fallback_value :: "dataLoader \<Rightarrow> string \<Rightarrow> jsval" where
  "fallback_value L type = or_default (get_property (fallbackData L) type) (JObj [])"

text \<open>The \<^verbatim>\<open>try\<close> block with its \<^verbatim>\<open>catch\<close> handler.\<close>

definition loadData_settle ::
    "dataLoader \<Rightarrow> world \<Rightarrow> string \<Rightarrow> fetch_outcome \<Rightarrow> (js_error + jsval) \<times> dataLoader \<times> world" where
  "loadData_settle L W type out =
     (case loadData_try L W type out of
        (Inr d, L', W') \<Rightarrow> (Inr d, L', W')
      | (Inl e, L', W') \<Rightarrow>
          (Inr (fallback_value L' type),
           L',
           logger Warn (''Failed to load '' @ type @ '' data, using fallback'') W'))"

text \<open>
  One call of \<^verbatim>\<open>loadData\<close> awaited on its own. The result is the settled promise:
  \<open>Inr\<close> a value, \<open>Inl\<close> a rejection.
\<close>

definition loadData ::
    "dataLoader \<Rightarrow> world \<Rightarrow> string \<Rightarrow> (js_error + jsval) \<times> dataLoader \<times> world" where
  "loadData L W type =
     (case loadData_begin L W type of
        (Some d, W1) \<Rightarrow> (Inr d, L, W1)
      | (None, W1) \<Rightarrow>
          (case network W1 (dataUrl type) of
             (latency, out) \<Rightarrow>
               loadData_settle L (W1\<lparr>clock := clock W1 + int latency\<rparr>) type out))"

definition clearCache :: "dataLoader \<Rightarrow> world \<Rightarrow> dataLoader \<times> world" where
  "clearCache L W = (L\<lparr>cache := []\<rparr>, logger Info ''Data cache cleared'' W)"

record status_entry =
  cached :: bool
  age :: int
  expired :: bool

text \<open>\<^verbatim>\<open>Math.round(a / 1000)\<close> on an integer \<open>a\<close>: halves round towards plus infinity.\<close>

definition round_seconds :: "int \<Rightarrow> int" where
  "round_seconds a = (a + 500) div 1000"

definition getCacheStatus :: "dataLoader \<Rightarrow> int \<Rightarrow> (string \<times> status_entry) list" where
  "getCacheStatus L now =
     map (\<lambda>(key, value).
            (key, \<lparr>cached = True,
                   age = round_seconds (now - timestamp value),
                   expired = (now - timestamp value > cacheExpiry L)\<rparr>))
         (cache L)"

section \<open>Loading all categories\<close>

definition categories :: "string list" where
  "categories = [''user'', ''webdev'', ''cyber'', ''books'', ''interests'', ''quotes'']"

text \<open>A promise returned by \<^verbatim>\<open>loadData\<close>: still waiting for its request, or settled.\<close>

datatype promise =
    Pending
  | Settled "js_error + jsval"

text \<open>
  \<^verbatim>\<open>loadAllData\<close> calls \<^verbatim>\<open>loadData\<close> six times in a row before it awaits anything,
  so the six first parts run one after the other at the same clock value, in the order
  of the array literal.
\<close>

fun begin_all :: "dataLoader \<Rightarrow> world \<Rightarrow> string list \<Rightarrow> (string \<times> promise) list \<times> world" where
  "begin_all L W [] = ([], W)"
| "begin_all L W (t # ts) =
     (case loadData_begin L W t of
        (r, W1) \<Rightarrow>
          (case begin_all L W1 ts of
             (ps, W2) \<Rightarrow>
               ((t, case r of Some d \<Rightarrow> Settled (Inr d) | None \<Rightarrow> Pending) # ps, W2)))"

text \<open>
  The requests in flight complete one by one; \<open>t0\<close> is the time they were sent. Each
  completion runs the second part of its \<^verbatim>\<open>loadData\<close> call and settles its promise.
\<close>

fun settle_all ::
    "dataLoader \<Rightarrow> world \<Rightarrow> int \<Rightarrow> string list \<Rightarrow> (string \<times> promise) list
       \<Rightarrow> (string \<times> promise) list \<times> dataLoader \<times> world" where
  "settle_all L W t0 [] ps = (ps, L, W)"
| "settle_all L W t0 (t # ts) ps =
     (case network W (dataUrl t) of
        (latency, out) \<Rightarrow>
          (case loadData_settle L (W\<lparr>clock := t0 + int latency\<rparr>) t out of
             (r, L1, W1) \<Rightarrow> settle_all L1 W1 t0 ts (AList.update t (Settled r) ps)))"

text \<open>
  \<^verbatim>\<open>await Promise.all(...)\<close>: rejected as soon as one promise is rejected, fulfilled
  with all values in the order of the array when all are fulfilled, and never resumed
  (\<open>None\<close>) while one stays pending.
\<close>

fun promise_all :: "promise list \<Rightarrow> (js_error + jsval list) option" where
  "promise_all [] = Some (Inr [])"
| "promise_all (Settled (Inl e) # ps) = Some (Inl e)"
| "promise_all (Settled (Inr v) # ps) =
     (case promise_all ps of
        Some (Inr vs) \<Rightarrow> Some (Inr (v # vs))
      | Some (Inl e) \<Rightarrow> Some (Inl e)
      | None \<Rightarrow> None)"
| "promise_all (Pending # ps) =
     (case promise_all ps of
        Some (Inl e) \<Rightarrow> Some (Inl e)
      | _ \<Rightarrow> None)"

text \<open>
  The requests complete in the order of their latencies (requests of equal latency in
  the order they were sent). \<open>None\<close> means that the caller is never resumed.
\<close>

definition completion_order :: "world \<Rightarrow> (string \<times> promise) list \<Rightarrow> string list" where
  "completion_order W ps =
     sort_key (\<lambda>t. fst (network W (dataUrl t))) (map fst (filter (\<lambda>p. snd p = Pending) ps))"

text \<open>
  What \<^verbatim>\<open>loadAllData\<close> does once \<^verbatim>\<open>Promise.all\<close> has settled: the
  \<^verbatim>\<open>return\<close> of the \<^verbatim>\<open>try\<close> block, or the \<^verbatim>\<open>catch\<close> handler.
\<close>

definition loadAllData_resume ::
    "dataLoader \<Rightarrow> world \<Rightarrow> js_error + jsval list \<Rightarrow> (js_error + jsval) \<times> dataLoader \<times> world" where
  "loadAllData_resume L W r =
     (case r of
        Inr vs \<Rightarrow> (Inr (JObj (zip categories vs)), L, W)
      | Inl e \<Rightarrow>
          (Inr (JObj (fallbackData L)), L, logger Error ''Failed to load all data'' W))"

definition loadAllData ::
    "dataLoader \<Rightarrow> world \<Rightarrow> ((js_error + jsval) \<times> dataLoader \<times> world) option" where
  "loadAllData L W =
     (case begin_all L W categories of
        (started, W1) \<Rightarrow>
          (case settle_all L W1 (clock W1) (completion_order W1 started) started of
             (settled, L2, W2) \<Rightarrow>
               (case promise_all (map snd settled) of
                  None \<Rightarrow> None
                | Some r \<Rightarrow> Some (loadAllData_resume L2 W2 r))))"

section \<open>The theme manager's observers\<close>

text \<open>
  An observer is a callback: given the theme it acts on the page (a state of type \<open>'w\<close>)
  and either returns or throws.
\<close>

type_synonym 'w observer = "string \<Rightarrow> 'w \<Rightarrow> string option \<times> 'w"

record 'w themeManager =
  currentTheme :: string
  observers :: "'w observer list"
  storageKey :: string

definition ThemeManager_new :: "'w themeManager" where
  "ThemeManager_new = \<lparr>currentTheme = ''light'', observers = [], storageKey = ''portfolio_theme''\<rparr>"

definition addObserver :: "'w observer \<Rightarrow> 'w themeManager \<Rightarrow> 'w themeManager" where
  "addObserver callback T = T\<lparr>observers := observers T @ [callback]\<rparr>"

text \<open>
  The body of \<^verbatim>\<open>forEach\<close> in \<^verbatim>\<open>notifyObservers\<close>, over the page and the console:
  a callback that throws (\<open>Some\<close>) has its exception caught and logged.
\<close>

fun forEach_notify ::
    "'w observer list \<Rightarrow> string \<Rightarrow> 'w \<times> (level \<times> string) list \<Rightarrow> 'w \<times> (level \<times> string) list" where
  "forEach_notify [] theme s = s"
| "forEach_notify (callback # rest) theme (w, con) =
     (case callback theme w of
        (None, w') \<Rightarrow> forEach_notify rest theme (w', con)
      | (Some err, w') \<Rightarrow>
          forEach_notify rest theme (w', con @ [(Error, ''Error in theme observer'')]))"

definition notifyObservers ::
    "'w themeManager \<Rightarrow> string \<Rightarrow> 'w \<times> (level \<times> string) list \<Rightarrow> 'w \<times> (level \<times> string) list" where
  "notifyObservers T theme s = forEach_notify (observers T) theme s"

section \<open>Notions used in the statements\<close>

text \<open>
  The three ways a request fails: the network, a status that is not a success, a body
  that is not JSON.
\<close>

definition fetch_failed :: "fetch_outcome \<Rightarrow> bool" where
  "fetch_failed out =
     (case out of
        NetworkError \<Rightarrow> True
      | Response status body \<Rightarrow> \<not> response_ok status \<or> body = None)"

text \<open>
  What each observer does when the observers are called one after the other, each once,
  on the page left by the one before: \<open>None\<close> for a return, \<open>Some\<close> for an
  exception.
\<close>

fun call_results :: "'w observer list \<Rightarrow> string \<Rightarrow> 'w \<Rightarrow> string option list" where
  "call_results [] theme w = []"
| "call_results (callback # rest) theme w =
     fst (callback theme w) # call_results rest theme (snd (callback theme w))"

text \<open>
  Reading a value from outside: \<open>own_prop\<close> is an own property of an object, \<open>own_fields\<close>
  all own properties of an object in order, \<open>item_fields\<close> the own properties of each element
  of an array of objects. A value of another kind has none.
\<close>

definition own_prop :: "string \<Rightarrow> jsval option \<Rightarrow> jsval option" where
  "own_prop k x = (case x of Some (JObj ps) \<Rightarrow> map_of ps k | _ \<Rightarrow> None)"

definition own_fields :: "jsval option \<Rightarrow> (string \<times> jsval) list" where
  "own_fields x = (case x of Some (JObj ps) \<Rightarrow> ps | _ \<Rightarrow> [])"

definition item_fields :: "jsval option \<Rightarrow> (string \<times> jsval) list list" where
  "item_fields x = (case x of Some (JArr xs) \<Rightarrow> map (\<lambda>i. own_fields (Some i)) xs | _ \<Rightarrow> [])"

section \<open>Single calls of the loader\<close>

lemmas loadData_defs =
  loadData_def loadData_begin_def loadData_settle_def loadData_try_def logger_def fetch_start_def

lemma loadData_hit:
  "cache_check L (clock W) c = Some d \<Longrightarrow>
   loadData L W c = (Inr d, L, logger Info (''Using cached data for '' @ c) W)"
  by (simp add: loadData_def loadData_begin_def)

lemma loadData_miss:
  "cache_check L (clock W) c = None \<Longrightarrow> network W (dataUrl c) = (lat, out) \<Longrightarrow>
   loadData L W c =
     loadData_settle L
       ((fetch_start (dataUrl c) (logger Info (''Loading '' @ c @ '' data from file'') W))
          \<lparr>clock := clock W + int lat\<rparr>) c out"
  by (simp add: loadData_def loadData_begin_def logger_def fetch_start_def)

lemma loadData_settle_failed:
  "fetch_failed out \<Longrightarrow>
   loadData_settle L W c out =
     (Inr (fallback_value L c), L,
      logger Warn (''Failed to load '' @ c @ '' data, using fallback'') W)"
  by (auto simp: fetch_failed_def loadData_settle_def loadData_try_def fallback_value_def
      split: fetch_outcome.splits option.splits)

lemma loadData_settle_ok:
  "response_ok st \<Longrightarrow>
   loadData_settle L W c (Response st (Some d)) =
     (Inr d,
      L\<lparr>cache := AList.update (cacheKey c) \<lparr>data = d, timestamp = clock W\<rparr> (cache L)\<rparr>,
      logger Success (''Successfully loaded '' @ c @ '' data'') W)"
  by (simp add: loadData_settle_def loadData_try_def)

lemma fetch_outcome_cases:
  "fetch_failed out \<or> (\<exists>st d. out = Response st (Some d) \<and> response_ok st)"
  by (cases out) (auto simp: fetch_failed_def)

lemma cache_check_Some:
  "cache_check L now c = Some d \<Longrightarrow> \<exists>e. map_of (cache L) (cacheKey c) = Some e \<and> d = data e"
  by (auto simp: cache_check_def split: option.splits if_splits)

text \<open>
  C1. \<^verbatim>\<open>loadData\<close> never rejects: for every name and in every state its promise is
  fulfilled, and the value is the payload of a cache entry for the name, or the payload
  fetched live with a successful status, or the fallback value for the name. When the
  cache misses and the request fails (network error, status outside 200 to 299, body that
  is not JSON) the value is the fallback value.
\<close>

theorem loadData_never_raises:
  "(\<exists>v. fst (loadData L W c) = Inr v \<and>
      ((\<exists>e. map_of (cache L) (cacheKey c) = Some e \<and> v = data e)
       \<or> (\<exists>lat st. network W (dataUrl c) = (lat, Response st (Some v)) \<and> response_ok st)
       \<or> v = fallback_value L c))
   \<and> (cache_check L (clock W) c = None \<and> fetch_failed (snd (network W (dataUrl c)))
        \<longrightarrow> fst (loadData L W c) = Inr (fallback_value L c))"
proof (cases "cache_check L (clock W) c")
  case (Some d)
  then show ?thesis
    using cache_check_Some [OF Some] by (auto simp: loadData_hit)
next
  case None
  obtain lat out where net: "network W (dataUrl c) = (lat, out)"
    by (cases "network W (dataUrl c)")
  from fetch_outcome_cases [of out] show ?thesis
  proof
    assume "fetch_failed out"
    then show ?thesis
      using None net by (simp add: loadData_miss loadData_settle_failed)
  next
    assume "\<exists>st d. out = Response st (Some d) \<and> response_ok st"
    then obtain st d where "out = Response st (Some d)" "response_ok st" by blast
    then show ?thesis
      using None net by (auto simp: loadData_miss loadData_settle_ok fetch_failed_def)
  qed
qed

text \<open>An instance: a network error for \<^verbatim>\<open>cyber\<close> on a new loader.\<close>

theorem loadData_never_raises_witness:
  "cache_check DataLoader_new 1000 ''cyber'' = None \<and> fetch_failed NetworkError \<and>
   fst (loadData DataLoader_new
          \<lparr>clock = 1000, network = (\<lambda>u. (20, NetworkError)), console = [], requests = []\<rparr>
          ''cyber'') = Inr fallback_cyber"
  using loadData_never_raises [of DataLoader_new
      "\<lparr>clock = 1000, network = (\<lambda>u. (20, NetworkError)), console = [], requests = []\<rparr>" "''cyber''"]
  by (simp add: cache_check_def DataLoader_new_def fetch_failed_def fallback_value_def
      get_property_def getFallbackData_def or_default_def fallback_cyber_def)


lemma fallback_value_known:
  "c \<in> set categories \<Longrightarrow> fallbackData L = getFallbackData \<Longrightarrow>
   \<exists>p. map_of getFallbackData c = Some p \<and> fallback_value L c = p"
  by (auto simp: categories_def fallback_value_def get_property_def getFallbackData_def
      or_default_def fallback_user_def fallback_webdev_def fallback_cyber_def fallback_books_def
      fallback_interests_def fallback_quotes_def)

lemma cache_check_later:
  "cache_check L t c = None \<Longrightarrow> t \<le> t' \<Longrightarrow> cache_check L t' c = None"
  by (auto simp: cache_check_def split: option.splits if_splits)

lemma loadData_miss_requests:
  assumes "cache_check L (clock W) c = None"
  shows "requests (snd (snd (loadData L W c))) = requests W @ [dataUrl c]"
proof -
  obtain lat out where net: "network W (dataUrl c) = (lat, out)"
    by (cases "network W (dataUrl c)")
  from fetch_outcome_cases [of out] show ?thesis
  proof
    assume "fetch_failed out"
    then show ?thesis
      using assms net by (simp add: loadData_miss loadData_settle_failed logger_def fetch_start_def)
  next
    assume "\<exists>st d. out = Response st (Some d) \<and> response_ok st"
    then obtain st d where "out = Response st (Some d)" "response_ok st" by blast
    then show ?thesis
      using assms net by (simp add: loadData_miss loadData_settle_ok logger_def fetch_start_def)
  qed
qed

text \<open>
  C2. For one of the six categories, on a loader that holds the fallback data of
  \<^verbatim>\<open>getFallbackData\<close>: when the cache misses and the request fails, \<^verbatim>\<open>loadData\<close>
  returns the fallback payload of that category and leaves the loader, hence its cache,
  exactly as it was; a later call (the clock not running backwards) sends a request again.
\<close>

theorem loadData_failure_gives_fallback:
  assumes known: "c \<in> set categories"
    and fb: "fallbackData L = getFallbackData"
    and miss: "cache_check L (clock W) c = None"
    and failed: "fetch_failed (snd (network W (dataUrl c)))"
  shows "\<exists>p. map_of getFallbackData c = Some p
           \<and> fst (loadData L W c) = Inr p
           \<and> fst (snd (loadData L W c)) = L
           \<and> (\<forall>W2. clock W \<le> clock W2 \<longrightarrow>
                 requests (snd (snd (loadData L W2 c))) = requests W2 @ [dataUrl c])"
proof -
  obtain lat out where net: "network W (dataUrl c) = (lat, out)"
    by (cases "network W (dataUrl c)")
  with failed have out: "fetch_failed out" by simp
  from fallback_value_known [OF known fb]
  obtain p where p: "map_of getFallbackData c = Some p" "fallback_value L c = p" by blast
  have res: "fst (loadData L W c) = Inr p" "fst (snd (loadData L W c)) = L"
    using miss net out p by (simp_all add: loadData_miss loadData_settle_failed)
  have "requests (snd (snd (loadData L W2 c))) = requests W2 @ [dataUrl c]"
    if "clock W \<le> clock W2" for W2
    using cache_check_later [OF miss that] by (rule loadData_miss_requests)
  with p res show ?thesis by blast
qed

text \<open>An instance: status 500 for \<^verbatim>\<open>cyber\<close> on a new loader.\<close>

theorem loadData_failure_gives_fallback_witness:
  "''cyber'' \<in> set categories \<and> fallbackData DataLoader_new = getFallbackData
   \<and> cache_check DataLoader_new 1000 ''cyber'' = None
   \<and> fetch_failed (Response 500 None)
   \<and> loadData DataLoader_new
        \<lparr>clock = 1000, network = (\<lambda>u. (20, Response 500 None)), console = [], requests = []\<rparr>
        ''cyber''
     = (Inr fallback_cyber, DataLoader_new,
        \<lparr>clock = 1020, network = (\<lambda>u. (20, Response 500 None)),
         console = [(Info, ''Loading cyber data from file''),
                    (Warn, ''Failed to load cyber data, using fallback'')],
         requests = [''data/cyber.json'']\<rparr>)
   \<and> (\<exists>p. map_of getFallbackData ''cyber'' = Some p
         \<and> fst (loadData DataLoader_new
              \<lparr>clock = 1000, network = (\<lambda>u. (20, Response 500 None)), console = [], requests = []\<rparr>
              ''cyber'') = Inr p)"
proof -
  let ?W = "\<lparr>clock = 1000, network = (\<lambda>u. (20, Response 500 None)), console = [], requests = []\<rparr>"
  have h1: "''cyber'' \<in> set categories" by (simp add: categories_def)
  have h2: "fallbackData DataLoader_new = getFallbackData" by (simp add: DataLoader_new_def)
  have h3: "cache_check DataLoader_new (clock ?W) ''cyber'' = None"
    by (simp add: cache_check_def DataLoader_new_def)
  have h4: "fetch_failed (snd (network ?W (dataUrl ''cyber'')))"
    by (simp add: fetch_failed_def response_ok_def)
  have run: "loadData DataLoader_new ?W ''cyber''
     = (Inr fallback_cyber, DataLoader_new,
        \<lparr>clock = 1020, network = (\<lambda>u. (20, Response 500 None)),
         console = [(Info, ''Loading cyber data from file''),
                    (Warn, ''Failed to load cyber data, using fallback'')],
         requests = [''data/cyber.json'']\<rparr>)"
    by (simp add: loadData_defs cache_check_def DataLoader_new_def response_ok_def
        fallback_value_def get_property_def getFallbackData_def or_default_def
        fallback_cyber_def dataUrl_def)
  from loadData_failure_gives_fallback [OF h1 h2 h3 h4] h1 h2 h3 h4 run
  show ?thesis by (auto simp: fetch_failed_def response_ok_def)
qed

lemma cache_check_fresh:
  "map_of (cache L) (cacheKey c) = Some e \<Longrightarrow> now - timestamp e < cacheExpiry L \<Longrightarrow>
   cache_check L now c = Some (data e)"
  by (simp add: cache_check_def)

lemma loadData_requests_le:
  "length (requests (snd (snd (loadData L W c)))) \<le> length (requests W) + 1"
proof (cases "cache_check L (clock W) c")
  case None
  then show ?thesis by (simp add: loadData_miss_requests)
next
  case (Some d)
  then show ?thesis by (simp add: loadData_hit logger_def)
qed

lemma loadData_cacheExpiry:
  "cacheExpiry (fst (snd (loadData L W c))) = cacheExpiry L"
proof (cases "cache_check L (clock W) c")
  case (Some d)
  then show ?thesis by (simp add: loadData_hit)
next
  case None
  obtain lat out where net: "network W (dataUrl c) = (lat, out)"
    by (cases "network W (dataUrl c)")
  from fetch_outcome_cases [of out] show ?thesis
  proof
    assume "fetch_failed out"
    then show ?thesis using None net by (simp add: loadData_miss loadData_settle_failed)
  next
    assume "\<exists>st d. out = Response st (Some d) \<and> response_ok st"
    then obtain st d where "out = Response st (Some d)" "response_ok st" by blast
    then show ?thesis using None net by (simp add: loadData_miss loadData_settle_ok)
  qed
qed

lemma loadData_first_result:
  assumes first: "loadData L W c = (r1, L1, W1)"
    and entry: "map_of (cache L1) (cacheKey c) = Some e"
    and window: "t2 - timestamp e < cacheExpiry L1"
    and mono: "clock W \<le> t2"
  shows "r1 = Inr (data e)"
proof (cases "cache_check L (clock W) c")
  case (Some d)
  with first have "r1 = Inr d" "L1 = L" by (simp_all add: loadData_hit)
  moreover from Some entry \<open>L1 = L\<close> have "d = data e"
    by (auto simp: cache_check_def split: if_splits)
  ultimately show ?thesis by simp
next
  case None
  obtain lat out where net: "network W (dataUrl c) = (lat, out)"
    by (cases "network W (dataUrl c)")
  from fetch_outcome_cases [of out] show ?thesis
  proof
    assume "fetch_failed out"
    with None net first have "L1 = L" by (simp add: loadData_miss loadData_settle_failed)
    with entry window have "cache_check L t2 c = Some (data e)" by (simp add: cache_check_fresh)
    moreover from cache_check_later [OF None mono] have "cache_check L t2 c = None" .
    ultimately show ?thesis by simp
  next
    assume "\<exists>st d. out = Response st (Some d) \<and> response_ok st"
    then obtain st d where "out = Response st (Some d)" "response_ok st" by blast
    with None net first
    have "r1 = Inr d"
      "cache L1 = AList.update (cacheKey c) \<lparr>data = d, timestamp = clock W + int lat\<rparr> (cache L)"
      by (auto simp: loadData_miss loadData_settle_ok logger_def fetch_start_def)
    with entry have "e = \<lparr>data = d, timestamp = clock W + int lat\<rparr>"
      by (simp add: update_conv')
    with \<open>r1 = Inr d\<close> show ?thesis by simp
  qed
qed

text \<open>
  C3. Two calls for the same name, the loader untouched in between and no other request
  sent: when at the second call the cache holds an entry for the name whose age is below
  the window of five minutes (300000 ms), the second call returns that entry's payload,
  sends no request and changes nothing in the loader; the first call returned the same
  payload; and both calls together have sent at most one request.
\<close>

theorem loadData_twice_within_window:
  assumes first: "loadData L W c = (r1, L1, W1)"
    and five_minutes: "cacheExpiry L = 300000"
    and entry: "map_of (cache L1) (cacheKey c) = Some e"
    and window: "clock W2 - timestamp e < 300000"
    and mono: "clock W \<le> clock W2"
    and between: "requests W2 = requests W1"
  shows "loadData L1 W2 c = (Inr (data e), L1, logger Info (''Using cached data for '' @ c) W2)
       \<and> r1 = Inr (data e)
       \<and> requests (snd (snd (loadData L1 W2 c))) = requests W1
       \<and> length (requests (snd (snd (loadData L1 W2 c)))) \<le> length (requests W) + 1"
proof -
  have exp: "cacheExpiry L1 = 300000"
    using loadData_cacheExpiry [of L W c] first five_minutes by simp
  with entry window have hit: "cache_check L1 (clock W2) c = Some (data e)"
    by (simp add: cache_check_fresh)
  then have second:
    "loadData L1 W2 c = (Inr (data e), L1, logger Info (''Using cached data for '' @ c) W2)"
    by (rule loadData_hit)
  have r1: "r1 = Inr (data e)"
    using loadData_first_result [OF first entry _ mono] window exp by simp
  have "length (requests W1) \<le> length (requests W) + 1"
    using loadData_requests_le [of L W c] first by simp
  with second r1 between show ?thesis by (simp add: logger_def)
qed

text \<open>An instance: \<^verbatim>\<open>books\<close> fetched at 1000 ms, asked again one second after it arrived.\<close>

theorem loadData_twice_within_window_witness:
  "loadData DataLoader_new
     \<lparr>clock = 1000, network = (\<lambda>u. (30, Response 200 (Some (JArr [JStr ''The Art of War''])))),
      console = [], requests = []\<rparr> ''books''
   = (Inr (JArr [JStr ''The Art of War'']),
      DataLoader_new\<lparr>cache := [(''data_books'',
          \<lparr>data = JArr [JStr ''The Art of War''], timestamp = 1030\<rparr>)]\<rparr>,
      \<lparr>clock = 1030, network = (\<lambda>u. (30, Response 200 (Some (JArr [JStr ''The Art of War''])))),
       console = [(Info, ''Loading books data from file''),
                  (Success, ''Successfully loaded books data'')],
       requests = [''data/books.json'']\<rparr>)
   \<and> cacheExpiry DataLoader_new = 300000
   \<and> (2030 :: int) - 1030 < 300000 \<and> (1000 :: int) \<le> 2030
   \<and> loadData
        (DataLoader_new\<lparr>cache := [(''data_books'',
            \<lparr>data = JArr [JStr ''The Art of War''], timestamp = 1030\<rparr>)]\<rparr>)
        \<lparr>clock = 2030, network = (\<lambda>u. (0, NetworkError)),
         console = [], requests = [''data/books.json'']\<rparr> ''books''
     = (Inr (JArr [JStr ''The Art of War'']),
        DataLoader_new\<lparr>cache := [(''data_books'',
            \<lparr>data = JArr [JStr ''The Art of War''], timestamp = 1030\<rparr>)]\<rparr>,
        \<lparr>clock = 2030, network = (\<lambda>u. (0, NetworkError)),
         console = [(Info, ''Using cached data for books'')],
         requests = [''data/books.json'']\<rparr>)"
proof -
  let ?d = "JArr [JStr ''The Art of War'']"
  let ?W = "\<lparr>clock = 1000, network = (\<lambda>u. (30, Response 200 (Some ?d))),
             console = [], requests = []\<rparr>"
  let ?e = "\<lparr>data = ?d, timestamp = 1030\<rparr>"
  let ?L1 = "DataLoader_new\<lparr>cache := [(''data_books'', ?e)]\<rparr>"
  let ?W1 = "\<lparr>clock = 1030, network = (\<lambda>u. (30, Response 200 (Some ?d))),
       console = [(Info, ''Loading books data from file''),
                  (Success, ''Successfully loaded books data'')],
       requests = [''data/books.json'']\<rparr>"
  let ?W2 = "\<lparr>clock = 2030, network = (\<lambda>u. (0, NetworkError)),
         console = [], requests = [''data/books.json'']\<rparr>"
  have first: "loadData DataLoader_new ?W ''books'' = (Inr ?d, ?L1, ?W1)"
    by (simp add: loadData_defs cache_check_def DataLoader_new_def response_ok_def
        dataUrl_def cacheKey_def)
  have five: "cacheExpiry DataLoader_new = 300000" by (simp add: DataLoader_new_def)
  have entry: "map_of (cache ?L1) (cacheKey ''books'') = Some ?e" by (simp add: cacheKey_def)
  have window: "clock ?W2 - timestamp ?e < 300000" by simp
  have mono: "clock ?W \<le> clock ?W2" by simp
  have between: "requests ?W2 = requests ?W1" by simp
  from loadData_twice_within_window [OF first five entry window mono between] first five
  show ?thesis by (simp add: logger_def)
qed

text \<open>
  C4. When the cache misses and the request succeeds (status 200 to 299, body that parses),
  \<^verbatim>\<open>loadData\<close> returns the parsed payload and the cache afterwards maps the key of
  the name to that payload with the clock value at the time of the write, whatever it held
  for that key before; no other key changes.
\<close>

theorem loadData_success_stores:
  assumes miss: "cache_check L (clock W) c = None"
    and net: "network W (dataUrl c) = (lat, Response st (Some d))"
    and ok: "response_ok st"
  shows "\<exists>L' W'. loadData L W c = (Inr d, L', W')
           \<and> clock W' = clock W + int lat
           \<and> cache L' = AList.update (cacheKey c) \<lparr>data = d, timestamp = clock W'\<rparr> (cache L)
           \<and> map_of (cache L') (cacheKey c) = Some \<lparr>data = d, timestamp = clock W'\<rparr>
           \<and> (\<forall>k. k \<noteq> cacheKey c \<longrightarrow> map_of (cache L') k = map_of (cache L) k)
           \<and> requests W' = requests W @ [dataUrl c]"
  using miss net ok
  by (simp add: loadData_miss loadData_settle_ok logger_def fetch_start_def update_conv')

text \<open>An instance: an expired entry for \<^verbatim>\<open>books\<close> is replaced.\<close>

theorem loadData_success_stores_witness:
  "cache_check
     (DataLoader_new\<lparr>cache := [(''data_books'', \<lparr>data = JNull, timestamp = 0\<rparr>)]\<rparr>)
     400000 ''books'' = None
   \<and> response_ok 200
   \<and> loadData
       (DataLoader_new\<lparr>cache := [(''data_books'', \<lparr>data = JNull, timestamp = 0\<rparr>)]\<rparr>)
       \<lparr>clock = 400000, network = (\<lambda>u. (30, Response 200 (Some (JArr [JStr ''Meditations''])))),
        console = [], requests = []\<rparr>
       ''books''
     = (Inr (JArr [JStr ''Meditations'']),
        DataLoader_new\<lparr>cache := [(''data_books'',
           \<lparr>data = JArr [JStr ''Meditations''], timestamp = 400030\<rparr>)]\<rparr>,
        \<lparr>clock = 400030, network = (\<lambda>u. (30, Response 200 (Some (JArr [JStr ''Meditations''])))),
         console = [(Info, ''Loading books data from file''),
                    (Success, ''Successfully loaded books data'')],
         requests = [''data/books.json'']\<rparr>)"
proof -
  let ?d = "JArr [JStr ''Meditations'']"
  let ?L = "DataLoader_new\<lparr>cache := [(''data_books'', \<lparr>data = JNull, timestamp = 0\<rparr>)]\<rparr>"
  let ?W = "\<lparr>clock = 400000, network = (\<lambda>u. (30, Response 200 (Some ?d))),
             console = [], requests = []\<rparr>"
  have miss: "cache_check ?L (clock ?W) ''books'' = None"
    by (simp add: cache_check_def DataLoader_new_def cacheKey_def)
  have net: "network ?W (dataUrl ''books'') = (30, Response 200 (Some ?d))" by simp
  have ok: "response_ok 200" by (simp add: response_ok_def)
  have run: "loadData ?L ?W ''books''
     = (Inr ?d,
        DataLoader_new\<lparr>cache := [(''data_books'', \<lparr>data = ?d, timestamp = 400030\<rparr>)]\<rparr>,
        \<lparr>clock = 400030, network = (\<lambda>u. (30, Response 200 (Some ?d))),
         console = [(Info, ''Loading books data from file''),
                    (Success, ''Successfully loaded books data'')],
         requests = [''data/books.json'']\<rparr>)"
    by (simp add: loadData_defs cache_check_def DataLoader_new_def response_ok_def
        dataUrl_def cacheKey_def)
  from loadData_success_stores [OF miss net ok] miss ok run
  show ?thesis by simp
qed

section \<open>Clearing and inspecting the cache\<close>

text \<open>
  C6. After \<^verbatim>\<open>clearCache\<close> the cache has no entry, \<^verbatim>\<open>getCacheStatus\<close> reports
  nothing, and for every name and in every later environment the cache check misses and
  \<^verbatim>\<open>loadData\<close> sends a request.
\<close>

theorem clearCache_empties:
  "cache (fst (clearCache L W)) = []
   \<and> getCacheStatus (fst (clearCache L W)) now = []
   \<and> cache_check (fst (clearCache L W)) (clock W') c = None
   \<and> requests (snd (snd (loadData (fst (clearCache L W)) W' c))) = requests W' @ [dataUrl c]"
proof -
  have empty: "cache (fst (clearCache L W)) = []" by (simp add: clearCache_def)
  then have miss: "cache_check (fst (clearCache L W)) (clock W') c = None"
    by (simp add: cache_check_def)
  from empty miss loadData_miss_requests [OF miss] show ?thesis
    by (simp add: getCacheStatus_def)
qed

text \<open>An instance: a loader holding a fresh entry for \<^verbatim>\<open>books\<close>.\<close>

theorem clearCache_empties_witness:
  "cache_check
     (DataLoader_new\<lparr>cache := [(''data_books'', \<lparr>data = JArr [], timestamp = 900\<rparr>)]\<rparr>)
     1000 ''books'' = Some (JArr [])
   \<and> cache_check
       (fst (clearCache
          (DataLoader_new\<lparr>cache := [(''data_books'', \<lparr>data = JArr [], timestamp = 900\<rparr>)]\<rparr>)
          \<lparr>clock = 950, network = (\<lambda>u. (0, NetworkError)), console = [], requests = []\<rparr>))
       1000 ''books'' = None
   \<and> requests (snd (snd (loadData
       (fst (clearCache
          (DataLoader_new\<lparr>cache := [(''data_books'', \<lparr>data = JArr [], timestamp = 900\<rparr>)]\<rparr>)
          \<lparr>clock = 950, network = (\<lambda>u. (0, NetworkError)), console = [], requests = []\<rparr>))
       \<lparr>clock = 1000, network = (\<lambda>u. (0, NetworkError)), console = [], requests = []\<rparr>
       ''books''))) = [''data/books.json'']"
  using clearCache_empties [of
      "DataLoader_new\<lparr>cache := [(''data_books'', \<lparr>data = JArr [], timestamp = 900\<rparr>)]\<rparr>"
      "\<lparr>clock = 950, network = (\<lambda>u. (0, NetworkError)), console = [], requests = []\<rparr>"
      0
      "\<lparr>clock = 1000, network = (\<lambda>u. (0, NetworkError)), console = [], requests = []\<rparr>"
      "''books''"]
  by (simp add: cache_check_def DataLoader_new_def cacheKey_def dataUrl_def)

text \<open>
  C8. \<^verbatim>\<open>getCacheStatus\<close> computes \<^verbatim>\<open>expired\<close> as \<^verbatim>\<open>age > cacheExpiry\<close>,
  while \<^verbatim>\<open>loadData\<close> serves an entry only while \<^verbatim>\<open>age < cacheExpiry\<close>. At an
  age of exactly 300000 ms the two disagree: the entry is reported as not expired, and
  \<^verbatim>\<open>loadData\<close> treats it as absent and sends a request.
\<close>

theorem getCacheStatus_boundary:
  "getCacheStatus
     (DataLoader_new\<lparr>cache := [(''data_books'', \<lparr>data = JArr [], timestamp = 0\<rparr>)]\<rparr>) 300000
     = [(''data_books'', \<lparr>cached = True, age = 300, expired = False\<rparr>)]
   \<and> cache_check
       (DataLoader_new\<lparr>cache := [(''data_books'', \<lparr>data = JArr [], timestamp = 0\<rparr>)]\<rparr>)
       300000 ''books'' = None
   \<and> requests (snd (snd (loadData
       (DataLoader_new\<lparr>cache := [(''data_books'', \<lparr>data = JArr [], timestamp = 0\<rparr>)]\<rparr>)
       \<lparr>clock = 300000, network = (\<lambda>u. (0, NetworkError)), console = [], requests = []\<rparr>
       ''books''))) = [''data/books.json'']"
  by (simp add: getCacheStatus_def round_seconds_def DataLoader_new_def cache_check_def
      cacheKey_def loadData_defs dataUrl_def)

text \<open>
  Off the boundary the flag and the loader agree: an entry whose age is not exactly the
  window is reported as expired if and only if the cache check rejects it.
\<close>

lemma expired_agrees_off_boundary:
  assumes "map_of (cache L) (cacheKey c) = Some e" "now - timestamp e \<noteq> cacheExpiry L"
  shows "(cacheExpiry L < now - timestamp e) = (cache_check L now c = None)"
  using assms by (auto simp: cache_check_def)

text \<open>What the status reports for an entry, in general.\<close>

lemma getCacheStatus_entry:
  "(key, e) \<in> set (cache L) \<Longrightarrow>
   (key, \<lparr>cached = True, age = round_seconds (now - timestamp e),
          expired = (cacheExpiry L < now - timestamp e)\<rparr>) \<in> set (getCacheStatus L now)"
  by (force simp: getCacheStatus_def)

section \<open>Names outside the six categories\<close>

text \<open>
  C10. \<^verbatim>\<open>this.fallbackData[type]\<close> also finds the properties that the fallback object
  inherits. For the name \<^verbatim>\<open>constructor\<close>, which is none of the six categories, a
  failed request makes \<^verbatim>\<open>loadData\<close> return the built-in \<^verbatim>\<open>Object\<close> function,
  not the empty object.
\<close>

theorem loadData_inherited_name:
  "''constructor'' \<notin> set categories
   \<and> fst (loadData DataLoader_new
        \<lparr>clock = 0, network = (\<lambda>u. (0, NetworkError)), console = [], requests = []\<rparr>
        ''constructor'') = Inr (JNative ''Object'')
   \<and> JNative ''Object'' \<noteq> JObj []"
  by (simp add: categories_def loadData_defs cache_check_def DataLoader_new_def
      fallback_value_def get_property_def getFallbackData_def or_default_def object_prototype_def)

text \<open>
  For a name that is neither a category nor a property of \<^verbatim>\<open>Object.prototype\<close> the
  value is the empty object, and the loader is left as it was.
\<close>

lemma loadData_unknown_name:
  assumes "c \<notin> set categories" "c \<notin> fst ` set object_prototype"
    and fb: "fallbackData L = getFallbackData"
    and miss: "cache_check L (clock W) c = None"
    and failed: "fetch_failed (snd (network W (dataUrl c)))"
  shows "fst (loadData L W c) = Inr (JObj []) \<and> fst (snd (loadData L W c)) = L"
proof -
  have "map_of getFallbackData c = None"
    using assms(1) by (simp add: categories_def getFallbackData_def)
  moreover have "map_of object_prototype c = None"
    using assms(2) by (simp add: map_of_eq_None_iff)
  ultimately have "fallback_value L c = JObj []"
    using fb by (simp add: fallback_value_def get_property_def or_default_def)
  moreover obtain lat out where net: "network W (dataUrl c) = (lat, out)"
    by (cases "network W (dataUrl c)")
  ultimately show ?thesis
    using miss failed by (simp add: loadData_miss loadData_settle_failed)
qed

section \<open>The fallback data\<close>

lemmas fallback_defs =
  getFallbackData_def fallback_user_def fallback_webdev_def fallback_cyber_def
  fallback_books_def fallback_interests_def fallback_quotes_def
  skill_def project_def titled_def book_def quote_def

lemmas reading_defs = own_prop_def own_fields_def item_fields_def

text \<open>No call of \<^verbatim>\<open>loadData\<close> changes the fallback data the loader holds.\<close>

lemma loadData_fallbackData:
  "fallbackData (fst (snd (loadData L W c))) = fallbackData L"
proof (cases "cache_check L (clock W) c")
  case (Some d)
  then show ?thesis by (simp add: loadData_hit)
next
  case None
  obtain lat out where net: "network W (dataUrl c) = (lat, out)"
    by (cases "network W (dataUrl c)")
  from fetch_outcome_cases [of out] show ?thesis
  proof
    assume "fetch_failed out"
    then show ?thesis using None net by (simp add: loadData_miss loadData_settle_failed)
  next
    assume "\<exists>st d. out = Response st (Some d) \<and> response_ok st"
    then obtain st d where "out = Response st (Some d)" "response_ok st" by blast
    then show ?thesis using None net by (simp add: loadData_miss loadData_settle_ok)
  qed
qed

text \<open>
  C7. A call of \<^verbatim>\<open>getFallbackData\<close> returns the same object whatever the loader and
  the environment it is called in, so any two calls return equal values; it leaves the
  loader (its cache included) and the environment (clock, console, requests) exactly as
  they were. The object has exactly the six categories as keys, each once and each with
  a truthy payload, which is therefore the fallback value of its category; the
  constructor stores it and starts with an empty cache. The payloads are those of the
  literal: the user profile, three skills and one project for each of \<^verbatim>\<open>webdev\<close> and
  \<^verbatim>\<open>cyber\<close>, two books, two heroes, two interests and two hobbies, three quotes.
\<close>

theorem getFallbackData_static:
  "fst (getFallbackData_call L W) = fst (getFallbackData_call L' W')
   \<and> snd (getFallbackData_call L W) = (L, W)
   \<and> fst (getFallbackData_call L W) = JObj getFallbackData
   \<and> map fst getFallbackData = categories
   \<and> distinct (map fst getFallbackData)
   \<and> list_all truthy (map snd getFallbackData)
   \<and> map (fallback_value DataLoader_new) categories = map snd getFallbackData
   \<and> fallbackData DataLoader_new = getFallbackData
   \<and> cache DataLoader_new = []
   \<and> own_fields (own_prop ''user'' (Some (JObj getFallbackData))) =
     [(''name'', JStr ''Koustubh Dave''),
      (''email'', JStr ''kanuntd13@gmail.com''),
      (''github'', JStr ''https://github.com/Koustubh1234G''),
      (''linkedin'', JStr ''https://www.linkedin.com/in/koustubh-dave-0690131a1''),
      (''summary'', JStr ''Full Stack Developer & Cybersecurity Enthusiast with strong interest in strategic thinking, Indian history, and philosophy.''),
      (''stats'', JObj [(''experience'', JStr ''3+''), (''projects'', JStr ''25+''),
                       (''technologies'', JStr ''15+''), (''certifications'', JStr ''5+'')])]
   \<and> map fst (own_fields (own_prop ''webdev'' (Some (JObj getFallbackData))))
       = [''skills'', ''projects'']
   \<and> item_fields (own_prop ''skills'' (own_prop ''webdev'' (Some (JObj getFallbackData)))) =
     [[(''title'', JStr ''Frontend Development''),
       (''description'', JStr ''Modern web interfaces with React, Vue, and vanilla JavaScript''),
       (''icon'', JStr ''fas fa-code''), (''level'', JNum 90)],
      [(''title'', JStr ''Backend Development''),
       (''description'', JStr ''Server-side applications with Node.js, Python, and databases''),
       (''icon'', JStr ''fas fa-server''), (''level'', JNum 85)],
      [(''title'', JStr ''Full Stack Architecture''),
       (''description'', JStr ''End-to-end application design and implementation''),
       (''icon'', JStr ''fas fa-layer-group''), (''level'', JNum 80)]]
   \<and> item_fields (own_prop ''projects'' (own_prop ''webdev'' (Some (JObj getFallbackData)))) =
     [[(''title'', JStr ''Portfolio Website''),
       (''description'', JStr ''Dual-mode personal portfolio with dynamic theme switching''),
       (''icon'', JStr ''fas fa-user''),
       (''tech'', JArr [JStr ''HTML'', JStr ''CSS'', JStr ''JavaScript'']),
       (''demo'', JStr ''#''), (''github'', JStr ''https://github.com/Koustubh1234G''),
       (''featured'', JBool True)]]
   \<and> map fst (own_fields (own_prop ''cyber'' (Some (JObj getFallbackData))))
       = [''skills'', ''projects'']
   \<and> item_fields (own_prop ''skills'' (own_prop ''cyber'' (Some (JObj getFallbackData)))) =
     [[(''title'', JStr ''Penetration Testing''),
       (''description'', JStr ''Ethical hacking and vulnerability assessment''),
       (''icon'', JStr ''fas fa-shield-alt''), (''level'', JNum 75)],
      [(''title'', JStr ''Network Security''),
       (''description'', JStr ''Securing network infrastructure and protocols''),
       (''icon'', JStr ''fas fa-network-wired''), (''level'', JNum 80)],
      [(''title'', JStr ''Digital Forensics''),
       (''description'', JStr ''Investigation and analysis of digital evidence''),
       (''icon'', JStr ''fas fa-search''), (''level'', JNum 70)]]
   \<and> item_fields (own_prop ''projects'' (own_prop ''cyber'' (Some (JObj getFallbackData)))) =
     [[(''title'', JStr ''Security Assessment Tool''),
       (''description'', JStr ''Automated vulnerability scanning and reporting''),
       (''icon'', JStr ''fas fa-bug''),
       (''tech'', JArr [JStr ''Python'', JStr ''Nmap'', JStr ''SQLMap'']),
       (''demo'', JStr ''#classified''), (''github'', JNull), (''featured'', JBool True)]]
   \<and> item_fields (own_prop ''books'' (Some (JObj getFallbackData))) =
     [[(''title'', JStr ''The Art of War''), (''author'', JStr ''Sun Tzu''),
       (''description'', JStr ''Ancient Chinese military treatise on strategy and tactics''),
       (''icon'', JStr ''fas fa-chess''), (''category'', JStr ''Strategy'')],
      [(''title'', JStr ''Meditations''), (''author'', JStr ''Marcus Aurelius''),
       (''description'', JStr ''Stoic philosophy and personal reflections of a Roman Emperor''),
       (''icon'', JStr ''fas fa-scroll''), (''category'', JStr ''Philosophy'')]]
   \<and> map fst (own_fields (own_prop ''interests'' (Some (JObj getFallbackData))))
       = [''heroes'', ''interests'', ''hobbies'']
   \<and> item_fields (own_prop ''heroes'' (own_prop ''interests'' (Some (JObj getFallbackData)))) =
     [[(''name'', JStr ''Subhas Chandra Bose''),
       (''description'', JStr ''Indian freedom fighter and strategic military leader''),
       (''icon'', JStr ''fas fa-flag'')],
      [(''name'', JStr ''Adi Shankaracharya''),
       (''description'', JStr ''Philosopher who consolidated Advaita Vedanta''),
       (''icon'', JStr ''fas fa-om'')]]
   \<and> item_fields (own_prop ''interests'' (own_prop ''interests'' (Some (JObj getFallbackData)))) =
     [[(''title'', JStr ''Strategic Thinking''),
       (''description'', JStr ''Military strategy, geopolitics, and tactical analysis''),
       (''icon'', JStr ''fas fa-chess-king'')],
      [(''title'', JStr ''Indian Philosophy''),
       (''description'', JStr ''Vedanta, dharmic traditions, and spiritual texts''),
       (''icon'', JStr ''fas fa-lotus'')]]
   \<and> item_fields (own_prop ''hobbies'' (own_prop ''interests'' (Some (JObj getFallbackData)))) =
     [[(''title'', JStr ''Chess''),
       (''description'', JStr ''Strategic board game mastery and tactical thinking''),
       (''icon'', JStr ''fas fa-chess-knight'')],
      [(''title'', JStr ''Go (Weiqi)''),
       (''description'', JStr ''Ancient strategy game of territory and influence''),
       (''icon'', JStr ''fas fa-circle'')]]
   \<and> item_fields (own_prop ''quotes'' (Some (JObj getFallbackData))) =
     [[(''text'', JStr ''All warfare is based on deception.''), (''author'', JStr ''Sun Tzu'')],
      [(''text'', JStr ''You have power over your mind - not outside events. Realize this, and you will find strength.''),
       (''author'', JStr ''Marcus Aurelius'')],
      [(''text'', JStr ''Freedom is my birthright and I shall have it.''),
       (''author'', JStr ''Bal Gangadhar Tilak'')]]"
  apply (intro conjI)
  subgoal by (simp add: getFallbackData_call_def)
  subgoal by (simp add: getFallbackData_call_def)
  subgoal by (simp add: getFallbackData_call_def)
  subgoal by (simp add: getFallbackData_def categories_def)
  subgoal by (simp add: getFallbackData_def)
  subgoal by (simp add: fallback_defs)
  subgoal by (simp add: fallback_defs categories_def DataLoader_new_def fallback_value_def get_property_def or_default_def)
  subgoal by (simp add: DataLoader_new_def)
  subgoal by (simp add: DataLoader_new_def)
  subgoal by (simp add: reading_defs getFallbackData_def fallback_user_def)
  subgoal by (simp add: reading_defs getFallbackData_def fallback_webdev_def)
  subgoal by (simp add: reading_defs getFallbackData_def fallback_webdev_def skill_def)
  subgoal by (simp add: reading_defs getFallbackData_def fallback_webdev_def project_def)
  subgoal by (simp add: reading_defs getFallbackData_def fallback_cyber_def)
  subgoal by (simp add: reading_defs getFallbackData_def fallback_cyber_def skill_def)
  subgoal by (simp add: reading_defs getFallbackData_def fallback_cyber_def project_def)
  subgoal by (simp add: reading_defs getFallbackData_def fallback_books_def book_def)
  subgoal by (simp add: reading_defs getFallbackData_def fallback_interests_def)
  subgoal by (simp add: reading_defs getFallbackData_def fallback_interests_def titled_def)
  subgoal by (simp add: reading_defs getFallbackData_def fallback_interests_def titled_def)
  subgoal by (simp add: reading_defs getFallbackData_def fallback_interests_def titled_def)
  subgoal by (simp add: reading_defs getFallbackData_def fallback_quotes_def quote_def)
  done

section \<open>Loading all categories at once\<close>

lemma loadData_begin_fst: "fst (loadData_begin L W t) = cache_check L (clock W) t"
  by (simp add: loadData_begin_def split: option.splits)

lemma loadData_begin_world:
  "clock (snd (loadData_begin L W t)) = clock W \<and> network (snd (loadData_begin L W t)) = network W"
  by (simp add: loadData_begin_def logger_def fetch_start_def split: option.splits)

lemma begin_all_spec:
  "\<exists>W'. begin_all L W ts =
          (map (\<lambda>t. (t, case cache_check L (clock W) t of
                          Some d \<Rightarrow> Settled (Inr d) | None \<Rightarrow> Pending)) ts, W')
        \<and> clock W' = clock W \<and> network W' = network W"
proof (induction ts arbitrary: W)
  case Nil
  show ?case by simp
next
  case (Cons t ts)
  obtain r W1 where b: "loadData_begin L W t = (r, W1)"
    by (cases "loadData_begin L W t")
  with loadData_begin_fst [of L W t] loadData_begin_world [of L W t]
  have r: "r = cache_check L (clock W) t" and w: "clock W1 = clock W" "network W1 = network W"
    by simp_all
  from Cons.IH [of W1] w b r show ?case by (auto split: prod.splits)
qed

lemma loadData_settle_value:
  "\<exists>v L' W'. loadData_settle L W t out = (Inr v, L', W')
      \<and> fallbackData L' = fallbackData L \<and> network W' = network W"
proof -
  from fetch_outcome_cases [of out] show ?thesis
  proof
    assume "fetch_failed out"
    then show ?thesis by (simp add: loadData_settle_failed logger_def)
  next
    assume "\<exists>st d. out = Response st (Some d) \<and> response_ok st"
    then show ?thesis by (auto simp: loadData_settle_ok logger_def)
  qed
qed

lemma loadData_settle_indep:
  assumes "fallbackData L = fallbackData L'"
  shows "fst (loadData_settle L W t out) = fst (loadData_settle L' W' t out)"
proof -
  from fetch_outcome_cases [of out] show ?thesis
  proof
    assume "fetch_failed out"
    then show ?thesis using assms by (simp add: loadData_settle_failed fallback_value_def)
  next
    assume "\<exists>st d. out = Response st (Some d) \<and> response_ok st"
    then show ?thesis by (auto simp: loadData_settle_ok)
  qed
qed

lemma update_distinct_map:
  "distinct (map fst ps) \<Longrightarrow> t \<in> fst ` set ps \<Longrightarrow>
   AList.update t v ps = map (\<lambda>(k, p). (k, if k = t then v else p)) ps"
proof (induction ps)
  case Nil
  then show ?case by simp
next
  case (Cons q ps)
  show ?case
  proof (cases "fst q = t")
    case True
    with Cons.prems have "t \<notin> fst ` set ps" by auto
    then have "map (\<lambda>(k, p). (k, if k = t then v else p)) ps = ps"
      by (induction ps) auto
    with True show ?thesis by (cases q) simp
  next
    case False
    with Cons show ?thesis by (cases q) auto
  qed
qed

lemma settle_all_spec:
  assumes "distinct (map fst ps)" "set order \<subseteq> fst ` set ps"
  shows "\<exists>L' W'. settle_all L W t0 order ps =
            (map (\<lambda>(k, p). (k, if k \<in> set order
                               then Settled (fst (loadData_settle L W k (snd (network W (dataUrl k)))))
                               else p)) ps, L', W')
          \<and> fallbackData L' = fallbackData L \<and> network W' = network W"
  using assms
proof (induction order arbitrary: L W ps)
  case Nil
  then show ?case by simp
next
  case (Cons t ts)
  obtain lat out where net: "network W (dataUrl t) = (lat, out)"
    by (cases "network W (dataUrl t)")
  from loadData_settle_value [of L "W\<lparr>clock := t0 + int lat\<rparr>" t out]
  obtain v L1 W1 where s: "loadData_settle L (W\<lparr>clock := t0 + int lat\<rparr>) t out = (Inr v, L1, W1)"
    and inv: "fallbackData L1 = fallbackData L" "network W1 = network W"
    by auto
  from Cons.prems have t: "t \<in> fst ` set ps" by simp
  let ?ps = "AList.update t (Settled (Inr v)) ps"
  have ps': "?ps = map (\<lambda>(k, p). (k, if k = t then Settled (Inr v) else p)) ps"
    using Cons.prems(1) t by (rule update_distinct_map)
  have keys: "map fst ?ps = map fst ps"
    using t by (simp add: update_keys)
  with Cons.prems have d: "distinct (map fst ?ps)" and sub: "set ts \<subseteq> fst ` set ?ps"
    by (auto simp flip: set_map)
  from Cons.IH [OF d sub, of L1 W1]
  obtain L' W' where rec: "settle_all L1 W1 t0 ts ?ps =
            (map (\<lambda>(k, p). (k, if k \<in> set ts
                               then Settled (fst (loadData_settle L1 W1 k (snd (network W1 (dataUrl k)))))
                               else p)) ?ps, L', W')"
    and inv': "fallbackData L' = fallbackData L1" "network W' = network W1"
    by blast
  have same: "fst (loadData_settle L1 W1 k (snd (network W1 (dataUrl k))))
            = fst (loadData_settle L W k (snd (network W (dataUrl k))))" for k
    unfolding inv(2) using inv(1) by (rule loadData_settle_indep)
  have "fst (loadData_settle L (W\<lparr>clock := t0 + int lat\<rparr>) t out) = fst (loadData_settle L W t out)"
    by (rule loadData_settle_indep) simp
  with s net have v: "Inr v = fst (loadData_settle L W t (snd (network W (dataUrl t))))"
    by simp
  have m: "map (\<lambda>(k, p). (k, if k \<in> set ts
                               then Settled (fst (loadData_settle L1 W1 k (snd (network W1 (dataUrl k)))))
                               else p)) ?ps
         = map (\<lambda>(k, p). (k, if k \<in> set (t # ts)
                               then Settled (fst (loadData_settle L W k (snd (network W (dataUrl k)))))
                               else p)) ps"
    unfolding ps' same using v by auto
  have "settle_all L W t0 (t # ts) ps = settle_all L1 W1 t0 ts ?ps"
    using net s by simp
  with rec m inv inv' show ?case by simp
qed

lemma promise_all_fulfilled:
  "promise_all (map (\<lambda>v. Settled (Inr v)) vs) = Some (Inr vs)"
  by (induction vs) simp_all

lemma loadData_fst:
  "fst (loadData L W c) =
     (case cache_check L (clock W) c of
        Some d \<Rightarrow> Inr d
      | None \<Rightarrow> fst (loadData_settle L W' c (snd (network W (dataUrl c)))))"
proof (cases "cache_check L (clock W) c")
  case (Some d)
  then show ?thesis by (simp add: loadData_hit)
next
  case None
  obtain lat out where net: "network W (dataUrl c) = (lat, out)"
    by (cases "network W (dataUrl c)")
  have "fst (loadData_settle L W1 c out) = fst (loadData_settle L W' c out)" for W1
    by (rule loadData_settle_indep) simp
  with None net show ?thesis
    by (simp add: loadData_miss)
qed


lemma loadData_fulfilled: "\<exists>v. fst (loadData L W c) = Inr v"
proof (cases "cache_check L (clock W) c")
  case (Some d)
  then show ?thesis by (simp add: loadData_hit)
next
  case None
  with loadData_settle_value [of L W c "snd (network W (dataUrl c))"] loadData_fst [of L W c W]
  show ?thesis by auto
qed

lemma completion_order_set:
  "set (completion_order W ps) = {t. (t, Pending) \<in> set ps}"
  by (force simp: completion_order_def)

text \<open>
  C5. \<^verbatim>\<open>loadAllData\<close> always resumes and returns an object whose keys are the six
  categories, in order; the payload of each category is the value that \<^verbatim>\<open>loadData\<close>
  for that category alone returns from the same loader and environment, whatever happens
  to the other five. The loader keeps its fallback data, and the \<^verbatim>\<open>catch\<close> handler,
  were \<^verbatim>\<open>Promise.all\<close> to reject, returns that whole fallback object.
\<close>

theorem loadAllData_complete:
  "\<exists>vs L' W'. loadAllData L W = Some (Inr (JObj (zip categories vs)), L', W')
      \<and> map (\<lambda>c. fst (loadData L W c)) categories = map Inr vs
      \<and> fallbackData L' = fallbackData L
      \<and> (\<forall>e. fst (loadAllData_resume L' W' (Inl e)) = Inr (JObj (fallbackData L)))"
proof -
  let ?P0 = "\<lambda>t. case cache_check L (clock W) t of Some d \<Rightarrow> Settled (Inr d) | None \<Rightarrow> Pending"
  let ?started = "map (\<lambda>t. (t, ?P0 t)) categories"
  from begin_all_spec [of L W categories]
  obtain W1 where b: "begin_all L W categories = (?started, W1)"
    and w1: "clock W1 = clock W" "network W1 = network W"
    by blast
  let ?order = "completion_order W1 ?started"
  have d: "distinct (map fst ?started)"
    by (simp add: categories_def comp_def)
  have order: "set ?order = {t \<in> set categories. ?P0 t = Pending}"
    by (auto simp: completion_order_set)
  then have sub: "set ?order \<subseteq> fst ` set ?started"
    by force
  let ?S = "\<lambda>k. Settled (fst (loadData_settle L W1 k (snd (network W1 (dataUrl k)))))"
  from settle_all_spec [OF d sub, of L W1 "clock W1"]
  obtain L2 W2 where st: "settle_all L W1 (clock W1) ?order ?started =
        (map (\<lambda>(k, p). (k, if k \<in> set ?order then ?S k else p)) ?started, L2, W2)"
    and inv: "fallbackData L2 = fallbackData L"
    by blast
  define val where "val t = (case fst (loadData L W t) of Inr v \<Rightarrow> v | Inl e \<Rightarrow> JNull)" for t
  have val: "fst (loadData L W t) = Inr (val t)" for t
    using loadData_fulfilled [of L W t] by (auto simp: val_def)
  have each: "(if t \<in> set ?order then ?S t else ?P0 t) = Settled (Inr (val t))"
    if "t \<in> set categories" for t
  proof (cases "cache_check L (clock W) t")
    case None
    with that have "t \<in> set ?order" by (simp add: order)
    moreover from None loadData_fst [of L W t W1] val [of t]
    have "fst (loadData_settle L W1 t (snd (network W1 (dataUrl t)))) = Inr (val t)"
      by (simp add: w1)
    ultimately show ?thesis by simp
  next
    case (Some v)
    then have "t \<notin> set ?order" by (simp add: order)
    moreover from Some loadData_fst [of L W t W1] val [of t] have "?P0 t = Settled (Inr (val t))"
      by simp
    ultimately show ?thesis by simp
  qed
  have "map snd (map (\<lambda>(k, p). (k, if k \<in> set ?order then ?S k else p)) ?started)
      = map (\<lambda>t. if t \<in> set ?order then ?S t else ?P0 t) categories"
    by (simp add: comp_def)
  also have "\<dots> = map (\<lambda>t. Settled (Inr (val t))) categories"
    using each by (intro map_cong refl) 
  also have "\<dots> = map (\<lambda>v. Settled (Inr v)) (map val categories)"
    by (simp add: comp_def)
  finally have "promise_all (map snd (map (\<lambda>(k, p). (k, if k \<in> set ?order then ?S k else p)) ?started))
      = Some (Inr (map val categories))"
    by (simp only: promise_all_fulfilled)
  with b st have "loadAllData L W = Some (Inr (JObj (zip categories (map val categories))), L2, W2)"
    by (simp add: loadAllData_def loadAllData_resume_def)
  moreover have "map (\<lambda>c. fst (loadData L W c)) categories = map Inr (map val categories)"
    by (simp add: val comp_def)
  moreover have "fst (loadAllData_resume L2 W2 (Inl e)) = Inr (JObj (fallbackData L))" for e
    by (simp add: loadAllData_resume_def inv)
  ultimately show ?thesis using inv by blast
qed

text \<open>An instance: \<^verbatim>\<open>cyber\<close> answers with status 500, the other five succeed.\<close>

theorem loadAllData_complete_witness:
  "\<exists>L' W'. loadAllData DataLoader_new
      \<lparr>clock = 0,
       network = (\<lambda>u. if u = ''data/cyber.json'' then (50, Response 500 None)
                       else (10, Response 200 (Some (JStr u)))),
       console = [], requests = []\<rparr>
    = Some (Inr (JObj [(''user'', JStr ''data/user.json''),
                       (''webdev'', JStr ''data/webdev.json''),
                       (''cyber'', fallback_cyber),
                       (''books'', JStr ''data/books.json''),
                       (''interests'', JStr ''data/interests.json''),
                       (''quotes'', JStr ''data/quotes.json'')]), L', W')"
proof -
  let ?W = "\<lparr>clock = 0,
       network = (\<lambda>u. if u = ''data/cyber.json'' then (50, Response 500 None)
                       else (10, Response 200 (Some (JStr u)))),
       console = [], requests = []\<rparr>"
  have each: "map (\<lambda>c. fst (loadData DataLoader_new ?W c)) categories
     = map Inr [JStr ''data/user.json'', JStr ''data/webdev.json'', fallback_cyber,
                JStr ''data/books.json'', JStr ''data/interests.json'', JStr ''data/quotes.json'']"
    by (simp add: categories_def loadData_defs cache_check_def DataLoader_new_def
        response_ok_def dataUrl_def fallback_value_def get_property_def getFallbackData_def
        or_default_def fallback_cyber_def)
  from loadAllData_complete [of DataLoader_new ?W]
  obtain vs L' W' where run:
    "loadAllData DataLoader_new ?W = Some (Inr (JObj (zip categories vs)), L', W')"
    and "map (\<lambda>c. fst (loadData DataLoader_new ?W c)) categories = map Inr vs"
    by blast
  with each have "map Inr vs
     = map (Inr :: jsval \<Rightarrow> js_error + jsval)
         [JStr ''data/user.json'', JStr ''data/webdev.json'', fallback_cyber,
          JStr ''data/books.json'', JStr ''data/interests.json'', JStr ''data/quotes.json'']"
    by (simp only:)
  then have "vs = [JStr ''data/user.json'', JStr ''data/webdev.json'', fallback_cyber,
          JStr ''data/books.json'', JStr ''data/interests.json'', JStr ''data/quotes.json'']"
    by (rule map_injective) simp
  with run show ?thesis by (simp add: categories_def)
qed

section \<open>Notifying the observers\<close>

lemma length_call_results: "length (call_results cbs theme w) = length cbs"
  by (induction cbs arbitrary: w) simp_all

text \<open>
  C9. \<^verbatim>\<open>notifyObservers\<close> calls every observer of the list exactly once with the theme,
  in order, each on the page left by the one before, whether or not earlier ones threw;
  it writes one error line to the console for each observer that threw and throws nothing
  itself.
\<close>

theorem notifyObservers_reaches_all:
  fixes T :: "'w themeManager"
  shows "notifyObservers T theme (w, con) =
     (fold (\<lambda>callback w. snd (callback theme w)) (observers T) w,
      con @ map (\<lambda>r. (Error, ''Error in theme observer''))
                (filter (\<lambda>r. r \<noteq> None) (call_results (observers T) theme w)))
   \<and> length (call_results (observers T) theme w) = length (observers T)"
proof -
  have "forEach_notify cbs theme (w, con) =
     (fold (\<lambda>callback w. snd (callback theme w)) cbs w,
      con @ map (\<lambda>r. (Error, ''Error in theme observer''))
                (filter (\<lambda>r. r \<noteq> None) (call_results cbs theme w)))"
    for cbs :: "'w observer list" and w con
  proof (induction cbs arbitrary: w con)
    case Nil
    show ?case by simp
  next
    case (Cons cb cbs)
    obtain r w' where call: "cb theme w = (r, w')"
      by (cases "cb theme w")
    show ?case
    proof (cases r)
      case None
      with call show ?thesis by (simp add: Cons.IH)
    next
      case (Some err)
      with call show ?thesis by (simp add: Cons.IH)
    qed
  qed
  then show ?thesis
    by (simp add: notifyObservers_def length_call_results)
qed

text \<open>An instance: three observers that record their call; the first two throw.\<close>

theorem notifyObservers_reaches_all_witness:
  "notifyObservers
     (addObserver (\<lambda>theme w. (None, w @ [(3, theme)]))
       (addObserver (\<lambda>theme w. (Some ''boom'', w @ [(2, theme)]))
         (addObserver (\<lambda>theme w. (Some ''bang'', w @ [(1 :: nat, theme)])) ThemeManager_new)))
     ''dark'' ([], [])
   = ([(1, ''dark''), (2, ''dark''), (3, ''dark'')],
      [(Error, ''Error in theme observer''), (Error, ''Error in theme observer'')])"
  using notifyObservers_reaches_all [of
     "addObserver (\<lambda>theme w. (None, w @ [(3, theme)]))
       (addObserver (\<lambda>theme w. (Some ''boom'', w @ [(2, theme)]))
         (addObserver (\<lambda>theme w. (Some ''bang'', w @ [(1 :: nat, theme)])) ThemeManager_new))"
     "''dark''" "[]" "[]"]
  by (simp add: addObserver_def ThemeManager_new_def)

end
